theory Spec2Isabelle
  imports Main "HOL-Library.Word"
begin

section \<open>Session store (src/lib/store.ts)\<close>

text \<open>
  The store keeps one \<open>Session\<close> per session id, either in Redis (when the
  environment variable \<open>REDIS_URL\<close> is set) or in a process-local \<open>Map\<close>.
  Strings are byte lists; optional fields of the TypeScript interfaces are
  \<open>option\<close> values, \<open>None\<close> standing for an absent key.
\<close>

record UserAttributes =
  personalNumber :: string
  name :: string
  givenName :: string
  surname :: string

datatype SessionStatus = Pending | Complete | Failed

text \<open>
  A stored session. The interface requires \<open>status\<close>, but \<open>updateSession\<close>
  accepts \<open>status: undefined\<close> and stores the record so written; the stored
  \<open>status\<close> is therefore a value or \<open>undefined\<close> (\<open>None\<close>), like the optional
  fields, for which a missing key and \<open>undefined\<close> read the same.
\<close>

record Session =
  grandidSessionId :: string
  status :: "SessionStatus option"
  jwt :: "string option"
  userAttributes :: "UserAttributes option"
  hintCode :: "string option"
  createdAt :: int
  completedAt :: "int option"

text \<open>
  \<open>Partial<Omit<Session, 'grandidSessionId' | 'createdAt'>>\<close>: each remaining key
  is left out of the object or given, and a key that is given holds a value or
  \<open>undefined\<close> (\<open>Given None\<close>).
\<close>

datatype 'a partial = LeftOut | Given 'a

record SessionUpdates =
  u_status :: "SessionStatus option partial"
  u_jwt :: "string option partial"
  u_userAttributes :: "UserAttributes option partial"
  u_hintCode :: "string option partial"
  u_completedAt :: "int option partial"

definition noUpdates :: SessionUpdates where
  "noUpdates = \<lparr>u_status = LeftOut, u_jwt = LeftOut, u_userAttributes = LeftOut,
     u_hintCode = LeftOut, u_completedAt = LeftOut\<rparr>"

text \<open>
  A Redis entry: the session (written with \<open>JSON.stringify\<close>, read back with
  \<open>JSON.parse\<close>, which return the same record) and the \<open>EX\<close> option of the
  last \<open>SET\<close> (field \<open>exSeconds\<close>), in seconds. The in-memory \<open>Map\<close> holds sessions only.
\<close>

record RedisEntry =
  stored :: Session
  exSeconds :: nat

record Store =
  USE_REDIS :: bool
  redis :: "string \<rightharpoonup> RedisEntry"
  memStore :: "string \<rightharpoonup> Session"

definition PENDING_TTL_S :: nat where
  "PENDING_TTL_S = 10 * 60"

definition COMPLETE_TTL_S :: nat where
  "COMPLETE_TTL_S = 60 * 60"

definition ttlFor :: "Session \<Rightarrow> nat" where
  "ttlFor session = (if status session = Some Complete then COMPLETE_TTL_S else PENDING_TTL_S)"

definition key :: "string \<Rightarrow> string" where
  "key sessionId = ''agentid:session:'' @ sessionId"

text \<open>
  \<open>createSession\<close>: the fresh id (\<open>crypto.randomUUID()\<close>) and the clock
  (\<open>Date.now()\<close>) are inputs; the result is the id and the new store.
\<close>

definition createSession :: "string \<Rightarrow> int \<Rightarrow> Store \<Rightarrow> string \<Rightarrow> string \<times> Store" where
  "createSession uuid now st gid =
     (let sessionId = uuid;
          session = \<lparr>grandidSessionId = gid, status = Some Pending, jwt = None,
                     userAttributes = None, hintCode = None, createdAt = now,
                     completedAt = None\<rparr>
      in if USE_REDIS st
         then (sessionId,
               st\<lparr>redis := (redis st)(key sessionId \<mapsto> \<lparr>stored = session, exSeconds = PENDING_TTL_S\<rparr>)\<rparr>)
         else (sessionId, st\<lparr>memStore := (memStore st)(sessionId \<mapsto> session)\<rparr>))"

definition getSession :: "Store \<Rightarrow> string \<Rightarrow> Session option" where
  "getSession st sessionId =
     (if USE_REDIS st
      then (case redis st (key sessionId) of None \<Rightarrow> None | Some raw \<Rightarrow> Some (stored raw))
      else memStore st sessionId)"

text \<open>
  The object spread \<open>{ ...existing, ...updates }\<close>: every key given in
  \<open>updates\<close> wins, also one given as \<open>undefined\<close>; a key left out keeps the
  existing value.
\<close>

definition spread :: "'a \<Rightarrow> 'a partial \<Rightarrow> 'a" where
  "spread existing given = (case given of LeftOut \<Rightarrow> existing | Given v \<Rightarrow> v)"

definition merge :: "Session \<Rightarrow> SessionUpdates \<Rightarrow> Session" where
  "merge existing updates =
     existing\<lparr>
       status := spread (status existing) (u_status updates),
       jwt := spread (jwt existing) (u_jwt updates),
       userAttributes := spread (userAttributes existing) (u_userAttributes updates),
       hintCode := spread (hintCode existing) (u_hintCode updates),
       completedAt := spread (completedAt existing) (u_completedAt updates)\<rparr>"

definition updateSession :: "Store \<Rightarrow> string \<Rightarrow> SessionUpdates \<Rightarrow> Store" where
  "updateSession st sessionId updates =
     (if USE_REDIS st
      then (case redis st (key sessionId) of
              None \<Rightarrow> st
            | Some raw \<Rightarrow>
                (let updated = merge (stored raw) updates
                 in st\<lparr>redis := (redis st)(key sessionId \<mapsto>
                                     \<lparr>stored = updated, exSeconds = ttlFor updated\<rparr>)\<rparr>))
      else (case memStore st sessionId of
              None \<Rightarrow> st
            | Some existing \<Rightarrow>
                st\<lparr>memStore := (memStore st)(sessionId \<mapsto> merge existing updates)\<rparr>))"

text \<open>
  The expiry the store has attached to a session: the \<open>EX\<close> seconds of its Redis
  entry; the in-memory \<open>Map\<close> attaches none.
\<close>

definition expiryOf :: "Store \<Rightarrow> string \<Rightarrow> nat option" where
  "expiryOf st sessionId =
     (if USE_REDIS st
      then (case redis st (key sessionId) of None \<Rightarrow> None | Some raw \<Rightarrow> Some (exSeconds raw))
      else None)"

section \<open>Credential issuer (src/lib/jwt.ts)\<close>

datatype json = JString string | JNumber int | JNull

type_synonym jsonObject = "(string \<times> json) list"

text \<open>Writing a key of a JavaScript object: an existing key keeps its place.\<close>

fun setField :: "string \<Rightarrow> json \<Rightarrow> jsonObject \<Rightarrow> jsonObject" where
  "setField k v [] = [(k, v)]"
| "setField k v ((k', v') # kvs) =
     (if k' = k then (k, v) # kvs else (k', v') # setField k v kvs)"

definition ISSUER :: string where
  "ISSUER = ''agentid''"

definition EXPIRY :: string where
  "EXPIRY = ''5m''"

definition KEY_ID :: string where
  "KEY_ID = ''agentid-key-1''"

text \<open>What the module throws: its own two \<open>Error\<close>s and the failures of jose.\<close>

datatype thrown =
    EnvVarNotSet string
  | HmacSecretNotSet
  | ImportKeyFailed
  | InvalidTimePeriod
  | SignFailed

text \<open>\<open>process.env\<close>: a variable is unset or a string.\<close>

type_synonym Env = "string \<rightharpoonup> string"

text \<open>\<open>raw.replace(/\\n/g, '\n')\<close>: every backslash followed by \<open>n\<close> becomes a line feed.\<close>

fun restoreNewlines :: "string \<Rightarrow> string" where
  "restoreNewlines [] = []"
| "restoreNewlines [c] = [c]"
| "restoreNewlines (c # d # cs) =
     (if c = CHR 0x5C \<and> d = CHR ''n'' then CHR 0x0A # restoreNewlines cs
      else c # restoreNewlines (d # cs))"

definition readPem :: "Env \<Rightarrow> string \<Rightarrow> thrown + string" where
  "readPem env envVar =
     (case env envVar of
        None \<Rightarrow> Inl (EnvVarNotSet envVar)
      | Some raw \<Rightarrow> if raw = [] then Inl (EnvVarNotSet envVar) else Inr (restoreNewlines raw))"

text \<open>
  The cryptographic primitives of jose and of Node's \<open>crypto\<close> are parameters of the
  model: \<open>importPKCS8\<close> parses a PEM key for RS256 (\<open>None\<close> when it throws),
  \<open>hmacSha256 secret message\<close> is the raw HMAC-SHA256 digest, and \<open>signCompact\<close> is
  \<open>SignJWT.sign\<close>: the compact serialisation of the protected header, the payload and
  their RS256 signature (\<open>None\<close> when it throws). \<open>'k\<close> is the type of imported keys.
\<close>

record 'k Crypto =
  importPKCS8 :: "string \<Rightarrow> 'k option"
  hmacSha256 :: "string \<Rightarrow> string \<Rightarrow> 8 word list"
  signCompact :: "'k \<Rightarrow> jsonObject \<Rightarrow> jsonObject \<Rightarrow> string option"

text \<open>
  \<open>getPrivateKey\<close> with the module variable \<open>cachedPrivateKey\<close> passed in and
  returned.
\<close>

definition getPrivateKey :: "'k Crypto \<Rightarrow> Env \<Rightarrow> 'k option \<Rightarrow> (thrown + 'k) \<times> 'k option" where
  "getPrivateKey crypto env cached =
     (case cached of
        Some k \<Rightarrow> (Inr k, cached)
      | None \<Rightarrow>
          (case readPem env ''JWT_PRIVATE_KEY'' of
             Inl e \<Rightarrow> (Inl e, None)
           | Inr pem \<Rightarrow>
               (case importPKCS8 crypto pem of
                  None \<Rightarrow> (Inl ImportKeyFailed, None)
                | Some k \<Rightarrow> (Inr k, Some k))))"

text \<open>\<open>digest('hex')\<close>: two lower-case hexadecimal digits per byte.\<close>

definition hexDigit :: "nat \<Rightarrow> char" where
  "hexDigit n = ''0123456789abcdef'' ! (n mod 16)"

definition hexByte :: "8 word \<Rightarrow> string" where
  "hexByte b = [hexDigit (unat b div 16), hexDigit (unat b mod 16)]"

definition digestHex :: "8 word list \<Rightarrow> string" where
  "digestHex bs = concat (map hexByte bs)"

definition deriveSubject :: "'k Crypto \<Rightarrow> Env \<Rightarrow> string \<Rightarrow> thrown + string" where
  "deriveSubject crypto env pn =
     (case env ''JWT_HMAC_SECRET'' of
        None \<Rightarrow> Inl HmacSecretNotSet
      | Some secret \<Rightarrow>
          if secret = [] then Inl HmacSecretNotSet
          else Inr (digestHex (hmacSha256 crypto secret pn)))"

subsection \<open>The jose token builder\<close>

text \<open>
  jose is a dependency of the repository; its builder is modelled as the library
  documents it. \<open>SignJWT\<close> collects a protected header and a payload. \<open>setIssuedAt()\<close> and
  \<open>setExpirationTime(span)\<close> each read the clock (\<open>new Date()\<close>, milliseconds) and
  store whole seconds; a time span is a decimal number followed by a unit, of which the
  one-letter units are modelled.
\<close>

record SignJWT =
  protectedHeader :: jsonObject
  payload :: jsonObject

definition newSignJWT :: "jsonObject \<Rightarrow> SignJWT" where
  "newSignJWT p = \<lparr>protectedHeader = [], payload = p\<rparr>"

definition epoch :: "int \<Rightarrow> int" where
  "epoch ms = ms div 1000"

definition isDigit :: "char \<Rightarrow> bool" where
  "isDigit c = (48 \<le> (of_char c :: nat) \<and> (of_char c :: nat) \<le> 57)"

definition decimal :: "string \<Rightarrow> int" where
  "decimal ds = foldl (\<lambda>acc c. 10 * acc + (int (of_char c) - 48)) 0 ds"

definition unitSeconds :: "char \<Rightarrow> int option" where
  "unitSeconds u =
     (if u = CHR ''s'' then Some 1
      else if u = CHR ''m'' then Some 60
      else if u = CHR ''h'' then Some (60 * 60)
      else if u = CHR ''d'' then Some (60 * 60 * 24)
      else if u = CHR ''w'' then Some (60 * 60 * 24 * 7)
      else if u = CHR ''y'' then Some 31557600
      else None)"

definition secs :: "string \<Rightarrow> int option" where
  "secs str =
     (if str = [] then None
      else if butlast str = [] then None
      else if list_all isDigit (butlast str)
      then (case unitSeconds (last str) of
              None \<Rightarrow> None
            | Some m \<Rightarrow> Some (decimal (butlast str) * m))
      else None)"

definition setProtectedHeader :: "jsonObject \<Rightarrow> SignJWT \<Rightarrow> SignJWT" where
  "setProtectedHeader h b = b\<lparr>protectedHeader := h\<rparr>"

definition setIssuedAt :: "int \<Rightarrow> SignJWT \<Rightarrow> SignJWT" where
  "setIssuedAt nowMs b = b\<lparr>payload := setField ''iat'' (JNumber (epoch nowMs)) (payload b)\<rparr>"

definition setIssuer :: "string \<Rightarrow> SignJWT \<Rightarrow> SignJWT" where
  "setIssuer iss b = b\<lparr>payload := setField ''iss'' (JString iss) (payload b)\<rparr>"

definition setSubject :: "string \<Rightarrow> SignJWT \<Rightarrow> SignJWT" where
  "setSubject sub b = b\<lparr>payload := setField ''sub'' (JString sub) (payload b)\<rparr>"

definition setJti :: "string \<Rightarrow> SignJWT \<Rightarrow> SignJWT" where
  "setJti jti b = b\<lparr>payload := setField ''jti'' (JString jti) (payload b)\<rparr>"

definition setExpirationTime :: "int \<Rightarrow> string \<Rightarrow> SignJWT \<Rightarrow> thrown + SignJWT" where
  "setExpirationTime nowMs span b =
     (case secs span of
        None \<Rightarrow> Inl InvalidTimePeriod
      | Some d \<Rightarrow> Inr (b\<lparr>payload := setField ''exp'' (JNumber (epoch nowMs + d)) (payload b)\<rparr>))"

section \<open>Identity provider responses (src/lib/grandid.ts)\<close>

record GrandidMessage =
  m_status :: string
  m_hintCode :: string

record GrandidObject =
  code :: string
  message :: GrandidMessage
  g_sessionId :: string
  QRCode :: "string option"
  autoStartToken :: "string option"

record ProviderUserAttributes = UserAttributes +
  ipAddress :: string
  notBefore :: string
  notAfter :: string
  signature :: string
  ocspResponse :: string
  uhi :: string
  bankIdIssueDate :: string

record ErrorObject =
  e_code :: string
  e_message :: string

text \<open>
  \<open>GetSessionResponse\<close> is a union told apart by the keys present, so a response is
  modelled by the three keys the type guards look at, each present or not.
\<close>

record GetSessionResponse =
  grandidObject :: "GrandidObject option"
  r_userAttributes :: "ProviderUserAttributes option"
  errorObject :: "ErrorObject option"

definition isComplete :: "GetSessionResponse \<Rightarrow> bool" where
  "isComplete r = (r_userAttributes r \<noteq> None)"

definition isPending :: "GetSessionResponse \<Rightarrow> bool" where
  "isPending r =
     (case grandidObject r of None \<Rightarrow> False | Some g \<Rightarrow> m_status (message g) = ''pending'')"

definition isFailed :: "GetSessionResponse \<Rightarrow> bool" where
  "isFailed r =
     (case grandidObject r of None \<Rightarrow> False | Some g \<Rightarrow> m_status (message g) = ''failed'')"

definition isNotLoggedIn :: "GetSessionResponse \<Rightarrow> bool" where
  "isNotLoggedIn r =
     (case errorObject r of None \<Rightarrow> False | Some e \<Rightarrow> e_code e = ''NOTLOGGEDIN'')"

datatype fetchError = FetchFailed

text \<open>
  What one request reads from outside the program: the environment, the answer of the
  identity provider to \<open>GetSession\<close> (\<open>Inl\<close> when \<open>fetch\<close> or \<open>res.json()\<close>
  throws), the clock at \<open>setIssuedAt\<close>, at \<open>setExpirationTime\<close> and at
  \<open>Date.now()\<close>, and the value of \<open>crypto.randomUUID()\<close>.
\<close>

record Effects =
  env :: Env
  getGrandidSession :: "string \<Rightarrow> fetchError + GetSessionResponse"
  clockIssuedAt :: int
  clockExpiration :: int
  randomUUID :: string
  dateNow :: int

section \<open>Issuing a token (src/lib/jwt.ts, issueJwt)\<close>

definition buildJwt :: "Effects \<Rightarrow> string \<Rightarrow> thrown + SignJWT" where
  "buildJwt fx sub =
     setExpirationTime (clockExpiration fx) EXPIRY
       (setJti (randomUUID fx)
         (setSubject sub
           (setIssuer ISSUER
             (setIssuedAt (clockIssuedAt fx)
               (setProtectedHeader [(''alg'', JString ''RS256''), (''kid'', JString KEY_ID)]
                 (newSignJWT [(''auth_method'', JString ''bankid'')]))))))"

text \<open>
  \<open>issueJwt({ personalNumber })\<close>: the argument object has this one field. The
  result is the token or what was thrown, and the key cache.
\<close>

definition issueJwt :: "'k Crypto \<Rightarrow> Effects \<Rightarrow> 'k option \<Rightarrow> string \<Rightarrow> (thrown + string) \<times> 'k option" where
  "issueJwt crypto fx cached pn =
     (case getPrivateKey crypto (env fx) cached of
        (Inl e, cache') \<Rightarrow> (Inl e, cache')
      | (Inr privateKey, cache') \<Rightarrow>
          (case deriveSubject crypto (env fx) pn of
             Inl e \<Rightarrow> (Inl e, cache')
           | Inr sub \<Rightarrow>
               (case buildJwt fx sub of
                  Inl e \<Rightarrow> (Inl e, cache')
                | Inr b \<Rightarrow>
                    (case signCompact crypto privateKey (protectedHeader b) (payload b) of
                       None \<Rightarrow> (Inl SignFailed, cache')
                     | Some token \<Rightarrow> (Inr token, cache')))))"

text \<open>
  Reading a token before it is signed: a numeric claim, and the validity \<open>exp - iat\<close>
  in seconds of the token that \<open>buildJwt\<close> hands to the signer.
\<close>

definition claimNumber :: "string \<Rightarrow> SignJWT \<Rightarrow> int option" where
  "claimNumber k b = (case map_of (payload b) k of Some (JNumber n) \<Rightarrow> Some n | _ \<Rightarrow> None)"

definition validitySeconds :: "thrown + SignJWT \<Rightarrow> int option" where
  "validitySeconds built =
     (case built of
        Inl e \<Rightarrow> None
      | Inr b \<Rightarrow>
          (case claimNumber ''exp'' b of
             None \<Rightarrow> None
           | Some e \<Rightarrow>
               (case claimNumber ''iat'' b of None \<Rightarrow> None | Some i \<Rightarrow> Some (e - i))))"


section \<open>HTTP routes\<close>

record Response =
  httpStatus :: nat
  body :: jsonObject

text \<open>\<open>NextResponse.json(body)\<close> answers 200 unless a status is given.\<close>

definition jsonResponse :: "jsonObject \<Rightarrow> Response" where
  "jsonResponse b = \<lparr>httpStatus = 200, body = b\<rparr>"

definition jsonResponseWith :: "jsonObject \<Rightarrow> nat \<Rightarrow> Response" where
  "jsonResponseWith b st = \<lparr>httpStatus = st, body = b\<rparr>"

text \<open>A key whose value is \<open>undefined\<close> is left out by \<open>JSON.stringify\<close>.\<close>

definition optField :: "string \<Rightarrow> string option \<Rightarrow> jsonObject" where
  "optField k v = (case v of None \<Rightarrow> [] | Some x \<Rightarrow> [(k, JString x)])"

text \<open>\<open>x ?? null\<close>\<close>

definition orNull :: "string option \<Rightarrow> json" where
  "orNull v = (case v of None \<Rightarrow> JNull | Some x \<Rightarrow> JString x)"

subsection \<open>GET /api/auth/[sessionId]/poll\<close>

text \<open>
  The state a request can change: the session store and the cached private key of the
  issuer. A poll returns the response, the new state and the provider sessions it
  asked \<open>GetSession\<close> for.
\<close>

record 'k World =
  store :: Store
  cachedPrivateKey :: "'k option"

record 'k PollResult =
  response :: Response
  world :: "'k World"
  providerCalls :: "string list"

definition poll_GET :: "'k Crypto \<Rightarrow> Effects \<Rightarrow> 'k World \<Rightarrow> string \<Rightarrow> 'k PollResult" where
  "poll_GET crypto fx w sessionId =
     (case getSession (store w) sessionId of
        None \<Rightarrow>
          \<lparr>response = jsonResponseWith [(''error'', JString ''SESSION_NOT_FOUND'')] 404,
           world = w, providerCalls = []\<rparr>
      | Some session \<Rightarrow>
          if status session = Some Complete then
            \<lparr>response = jsonResponse [(''status'', JString ''complete'')],
             world = w, providerCalls = []\<rparr>
          else if status session = Some Failed then
            \<lparr>response = jsonResponse
               ((''status'', JString ''failed'') # optField ''hintCode'' (hintCode session)),
             world = w, providerCalls = []\<rparr>
          else
            (case getGrandidSession fx (grandidSessionId session) of
               Inl err \<Rightarrow>
                 \<lparr>response = jsonResponseWith [(''error'', JString ''GRANDID_UNREACHABLE'')] 502,
                  world = w, providerCalls = [grandidSessionId session]\<rparr>
             | Inr grandidResponse \<Rightarrow>
                 if isComplete grandidResponse then
                   (let ua = the (r_userAttributes grandidResponse)
                    in case issueJwt crypto fx (cachedPrivateKey w) (personalNumber ua) of
                         (Inr token, cache') \<Rightarrow>
                           \<lparr>response = jsonResponse [(''status'', JString ''complete'')],
                            world = \<lparr>store = updateSession (store w) sessionId
                                       \<lparr>u_status = Given (Some Complete), u_jwt = Given (Some token),
                                        u_userAttributes = Given (Some (UserAttributes.truncate ua)),
                                        u_hintCode = LeftOut,
                                        u_completedAt = Given (Some (dateNow fx))\<rparr>,
                                     cachedPrivateKey = cache'\<rparr>,
                            providerCalls = [grandidSessionId session]\<rparr>
                       | (Inl err, cache') \<Rightarrow>
                           \<lparr>response = jsonResponseWith
                              [(''status'', JString ''failed''), (''hintCode'', JString ''JWT_ERROR'')]
                              500,
                            world = \<lparr>store = updateSession (store w) sessionId
                                       \<lparr>u_status = Given (Some Failed), u_jwt = LeftOut,
                                        u_userAttributes = LeftOut,
                                        u_hintCode = Given (Some ''JWT_ERROR''),
                                        u_completedAt = LeftOut\<rparr>,
                                     cachedPrivateKey = cache'\<rparr>,
                            providerCalls = [grandidSessionId session]\<rparr>)
                 else if isFailed grandidResponse then
                   (let hc = m_hintCode (message (the (grandidObject grandidResponse)))
                    in \<lparr>response = jsonResponse
                          [(''status'', JString ''failed''), (''hintCode'', JString hc)],
                        world = w\<lparr>store := updateSession (store w) sessionId
                                   \<lparr>u_status = Given (Some Failed), u_jwt = LeftOut,
                                    u_userAttributes = LeftOut, u_hintCode = Given (Some hc),
                                    u_completedAt = LeftOut\<rparr>\<rparr>,
                        providerCalls = [grandidSessionId session]\<rparr>)
                 else if isPending grandidResponse then
                   (let g = the (grandidObject grandidResponse)
                    in \<lparr>response = jsonResponse
                          [(''status'', JString ''pending''),
                           (''hintCode'', JString (m_hintCode (message g))),
                           (''qrCode'', orNull (QRCode g))],
                        world = w, providerCalls = [grandidSessionId session]\<rparr>)
                 else if isNotLoggedIn grandidResponse then
                   \<lparr>response = jsonResponse
                      [(''status'', JString ''pending''),
                       (''hintCode'', JString ''outstandingTransaction'')],
                    world = w, providerCalls = [grandidSessionId session]\<rparr>
                 else
                   \<lparr>response = jsonResponse [(''status'', JString ''pending'')],
                    world = w, providerCalls = [grandidSessionId session]\<rparr>))"

text \<open>
  In \<open>poll_GET\<close>, \<open>the\<close> is applied to \<open>r_userAttributes\<close> only under
  \<open>isComplete\<close> and to \<open>grandidObject\<close> only under \<open>isFailed\<close> or
  \<open>isPending\<close>, where the key is present.
\<close>

text \<open>A run of polls of one session, each with its own outside inputs.\<close>

fun polls :: "'k Crypto \<Rightarrow> Effects list \<Rightarrow> 'k World \<Rightarrow> string \<Rightarrow> 'k PollResult list" where
  "polls crypto [] w sessionId = []"
| "polls crypto (fx # fxs) w sessionId =
     (let r = poll_GET crypto fx w sessionId in r # polls crypto fxs (world r) sessionId)"

subsection \<open>GET /api/auth/status\<close>

text \<open>
  The query parameter is \<open>searchParams.get('sessionId')\<close>: absent or a string; the
  empty string and an empty \<open>jwt\<close> are falsy.
\<close>

definition status_GET :: "Store \<Rightarrow> string option \<Rightarrow> Response" where
  "status_GET st param =
     (case param of
        None \<Rightarrow>
          jsonResponseWith
            [(''error'', JString ''MISSING_SESSION_ID''),
             (''message'', JString ''sessionId query param is required.'')] 400
      | Some sessionId \<Rightarrow>
          if sessionId = [] then
            jsonResponseWith
              [(''error'', JString ''MISSING_SESSION_ID''),
               (''message'', JString ''sessionId query param is required.'')] 400
          else
            (case getSession st sessionId of
               None \<Rightarrow>
                 jsonResponseWith
                   [(''error'', JString ''SESSION_NOT_FOUND''),
                    (''message'', JString ''Session not found or expired.'')] 404
             | Some session \<Rightarrow>
                 if status session = Some Complete \<and> jwt session \<noteq> None \<and> jwt session \<noteq> Some []
                 then jsonResponse
                        [(''status'', JString ''complete''), (''jwt'', JString (the (jwt session)))]
                 else if status session = Some Failed
                 then jsonResponse
                        [(''status'', JString ''failed''),
                         (''hintCode'', JString (case hintCode session of
                                                   None \<Rightarrow> ''unknown'' | Some h \<Rightarrow> h))]
                 else jsonResponse [(''status'', JString ''pending'')]))"

section \<open>Example data\<close>

text \<open>
  Concrete sessions, stores, provider answers and outside inputs on which the
  theorems below are instantiated. Session \<open>s1\<close> belongs to the person with the
  personal number \<open>199001010000\<close>.
\<close>

definition exampleAttributes :: UserAttributes where
  "exampleAttributes = \<lparr>personalNumber = ''199001010000'', name = ''Anna Svensson'',
     givenName = ''Anna'', surname = ''Svensson''\<rparr>"

definition examplePending :: Session where
  "examplePending = \<lparr>grandidSessionId = ''gid-1'', status = Some Pending, jwt = None,
     userAttributes = None, hintCode = None, createdAt = 1700000000000,
     completedAt = None\<rparr>"

definition exampleFailed :: Session where
  "exampleFailed = examplePending\<lparr>status := Some Failed, hintCode := Some ''userCancel''\<rparr>"

definition exampleComplete :: Session where
  "exampleComplete = examplePending\<lparr>status := Some Complete, jwt := Some ''h.p.s'',
     userAttributes := Some exampleAttributes, completedAt := Some 1700000004000\<rparr>"

definition memStoreWith :: "Session \<Rightarrow> Store" where
  "memStoreWith s = \<lparr>USE_REDIS = False, redis = Map.empty, memStore = [''s1'' \<mapsto> s]\<rparr>"

definition redisStoreWith :: "Session \<Rightarrow> Store" where
  "redisStoreWith s = \<lparr>USE_REDIS = True,
     redis = [key ''s1'' \<mapsto> \<lparr>stored = s, exSeconds = ttlFor s\<rparr>], memStore = Map.empty\<rparr>"

text \<open>
  Stand-ins for the primitives: a key is its PEM text, every digest is the two bytes
  \<open>0f a5\<close>, and a token lists the header keys, the claim names and the key.
\<close>

definition exampleCrypto :: "string Crypto" where
  "exampleCrypto = \<lparr>importPKCS8 = (\<lambda>pem. if pem = [] then None else Some pem),
     hmacSha256 = (\<lambda>secret msg. [0x0f, 0xa5]),
     signCompact = (\<lambda>k h p. Some (concat (map fst h) @ ''.'' @ concat (map fst p) @ ''.'' @ k))\<rparr>"


definition exampleEnv :: Env where
  "exampleEnv = [''JWT_HMAC_SECRET'' \<mapsto> ''s3cret'', ''JWT_PRIVATE_KEY'' \<mapsto> ''PEM'']"

definition exampleEffects :: Effects where
  "exampleEffects = \<lparr>env = exampleEnv, getGrandidSession = (\<lambda>gid. Inl FetchFailed),
     clockIssuedAt = 1700000000123, clockExpiration = 1700000000123,
     randomUUID = ''uuid-1'', dateNow = 1700000000456\<rparr>"

definition withoutKeys :: "Effects \<Rightarrow> Effects" where
  "withoutKeys fx = fx\<lparr>env := Map.empty\<rparr>"

definition exampleWorld :: "Session \<Rightarrow> string World" where
  "exampleWorld s = \<lparr>store = memStoreWith s, cachedPrivateKey = None\<rparr>"

definition completeResponse :: "UserAttributes \<Rightarrow> GetSessionResponse" where
  "completeResponse ua = \<lparr>grandidObject = None,
     r_userAttributes = Some (UserAttributes.extend ua
       \<lparr>ipAddress = ''192.0.2.1'', notBefore = ''2026-01-01'', notAfter = ''2028-01-01'',
        signature = ''sig'', ocspResponse = ''ocsp'', uhi = ''uhi'',
        bankIdIssueDate = ''2026-01-01''\<rparr>),
     errorObject = None\<rparr>"

definition failedResponse :: GetSessionResponse where
  "failedResponse = \<lparr>grandidObject = Some \<lparr>code = ''BANKID_MSG'',
       message = \<lparr>m_status = ''failed'', m_hintCode = ''userCancel''\<rparr>,
       g_sessionId = ''gid-1'', QRCode = None, autoStartToken = None\<rparr>,
     r_userAttributes = None, errorObject = None\<rparr>"

definition errorResponse :: GetSessionResponse where
  "errorResponse = \<lparr>grandidObject = None, r_userAttributes = None,
     errorObject = Some \<lparr>e_code = ''FIELDSNOTVALID'', e_message = ''Invalid session''\<rparr>\<rparr>"

definition answering :: "GetSessionResponse \<Rightarrow> Effects" where
  "answering r = exampleEffects\<lparr>getGrandidSession := (\<lambda>gid. Inr r)\<rparr>"


section \<open>The store: merge, frame and expiry\<close>


lemma getSession_updateSession_same:
  "getSession st sid = Some s \<Longrightarrow> getSession (updateSession st sid u) sid = Some (merge s u)"
  by (auto simp: getSession_def updateSession_def Let_def split: option.splits if_splits)




lemma expiryOf_updateSession_redis:
  "USE_REDIS st \<Longrightarrow> getSession st sid = Some s \<Longrightarrow>
   expiryOf (updateSession st sid u) sid = Some (ttlFor (merge s u))"
  by (auto simp: getSession_def expiryOf_def updateSession_def Let_def split: option.splits)


lemma getSession_redisStoreWith: "getSession (redisStoreWith s) ''s1'' = Some s"
  by (simp add: getSession_def redisStoreWith_def)

lemma getSession_memStoreWith: "getSession (memStoreWith s) ''s1'' = Some s"
  by (simp add: getSession_def memStoreWith_def)

text \<open>
  Claim C5, as amended. \<open>ttlFor\<close> gives a session whose status is complete the long
  lifetime \<open>COMPLETE_TTL_S\<close> (3600 seconds) and every other session, pending or
  failed, the short lifetime \<open>PENDING_TTL_S\<close> (600 seconds). With Redis, a new
  session is stored with the short lifetime and every update stores the lifetime of
  the merged record.
\<close>

theorem ttlFor_status_policy:
  "(status s = Some Complete \<longrightarrow> ttlFor s = COMPLETE_TTL_S) \<and>
   (status s = Some Pending \<or> status s = Some Failed \<longrightarrow> ttlFor s = PENDING_TTL_S) \<and>
   PENDING_TTL_S = 600 \<and> COMPLETE_TTL_S = 3600 \<and>
   (USE_REDIS st \<longrightarrow>
      expiryOf (snd (createSession uuid now st gid)) uuid = Some PENDING_TTL_S \<and>
      (\<forall>sid existing u. getSession st sid = Some existing \<longrightarrow>
         expiryOf (updateSession st sid u) sid = Some (ttlFor (merge existing u))))"
  using expiryOf_updateSession_redis
  by (auto simp: ttlFor_def PENDING_TTL_S_def COMPLETE_TTL_S_def createSession_def Let_def
      expiryOf_def)

theorem ttlFor_status_policy_witness:
  "status exampleComplete = Some Complete \<and> ttlFor exampleComplete = 3600 \<and>
   status exampleFailed = Some Failed \<and> ttlFor exampleFailed = 600 \<and>
   status examplePending = Some Pending \<and> ttlFor examplePending = 600 \<and>
   USE_REDIS (redisStoreWith examplePending) \<and>
   expiryOf (snd (createSession ''s2'' 1700000000000 (redisStoreWith examplePending) ''gid-2''))
      ''s2'' = Some 600 \<and>
   getSession (redisStoreWith examplePending) ''s1'' = Some examplePending \<and>
   expiryOf (updateSession (redisStoreWith examplePending) ''s1''
      (noUpdates\<lparr>u_status := Given (Some Complete)\<rparr>)) ''s1'' = Some 3600"
proof -
  have r: "USE_REDIS (redisStoreWith examplePending)"
    by (simp add: redisStoreWith_def)
  have s: "status exampleComplete = Some Complete" "status exampleFailed = Some Failed"
    "status examplePending = Some Pending"
    "status (merge examplePending (noUpdates\<lparr>u_status := Given (Some Complete)\<rparr>)) = Some Complete"
    by (simp_all add: exampleComplete_def exampleFailed_def examplePending_def merge_def spread_def)
  show ?thesis
    using getSession_redisStoreWith [of examplePending] r s
      ttlFor_status_policy [of exampleComplete "redisStoreWith examplePending" "''s2''"
        1700000000000 "''gid-2''"]
      ttlFor_status_policy [of exampleFailed "redisStoreWith examplePending" "''s2''"
        1700000000000 "''gid-2''"]
      ttlFor_status_policy [of examplePending "redisStoreWith examplePending" "''s2''"
        1700000000000 "''gid-2''"]
      ttlFor_status_policy [of "merge examplePending (noUpdates\<lparr>u_status := Given (Some Complete)\<rparr>)"
        "redisStoreWith examplePending" "''s2''" 1700000000000 "''gid-2''"]
    by simp
qed

text \<open>
  Against claim C5 as stated: a failed session is terminal, yet its lifetime is the
  short one of a pending session, not the long one.
\<close>

theorem ttlFor_failed_counterexample:
  "status exampleFailed = Some Failed \<and> status examplePending = Some Pending \<and>
   \<not> ttlFor examplePending < ttlFor exampleFailed \<and>
   ttlFor exampleFailed = PENDING_TTL_S \<and> ttlFor exampleFailed \<noteq> COMPLETE_TTL_S"
  by (simp add: ttlFor_def exampleFailed_def examplePending_def PENDING_TTL_S_def
      COMPLETE_TTL_S_def)




section \<open>The credential issuer\<close>

lemma secs_EXPIRY: "secs EXPIRY = Some 300"
  by (simp add: secs_def EXPIRY_def isDigit_def decimal_def unitSeconds_def)

lemma buildJwt_value:
  "buildJwt fx sub = Inr
     \<lparr>protectedHeader = [(''alg'', JString ''RS256''), (''kid'', JString KEY_ID)],
      payload = [(''auth_method'', JString ''bankid''),
                 (''iat'', JNumber (epoch (clockIssuedAt fx))),
                 (''iss'', JString ISSUER),
                 (''sub'', JString sub),
                 (''jti'', JString (randomUUID fx)),
                 (''exp'', JNumber (epoch (clockExpiration fx) + 300))]\<rparr>"
  by (simp add: buildJwt_def setExpirationTime_def secs_EXPIRY setJti_def setSubject_def
      setIssuer_def setIssuedAt_def setProtectedHeader_def newSignJWT_def)

lemma hexDigit_mem: "hexDigit n \<in> set ''0123456789abcdef''"
proof -
  have "n mod 16 < length ''0123456789abcdef''" by simp
  then show ?thesis unfolding hexDigit_def by (rule nth_mem)
qed

lemma length_digestHex: "length (digestHex bs) = 2 * length bs"
  by (induction bs) (simp_all add: digestHex_def hexByte_def)

lemma set_digestHex: "set (digestHex bs) \<subseteq> set ''0123456789abcdef''"
  using hexDigit_mem by (auto simp: digestHex_def hexByte_def)



lemma issueJwt_example:
  "issueJwt exampleCrypto (answering r) None ''199001010000'' =
     (Inr ''algkid.auth_methodiatisssubjtiexp.PEM'', Some ''PEM'')"
  by (simp add: issueJwt_def getPrivateKey_def readPem_def answering_def exampleEffects_def
      exampleEnv_def exampleCrypto_def deriveSubject_def buildJwt_value)


lemma issueJwt_withoutKeys:
  "issueJwt exampleCrypto (withoutKeys fx) None pn = (Inl (EnvVarNotSet ''JWT_PRIVATE_KEY''), None)"
  by (simp add: issueJwt_def getPrivateKey_def readPem_def withoutKeys_def)








text \<open>
  Claim C3. With the secret \<open>JWT_HMAC_SECRET\<close> set, \<open>deriveSubject p\<close> is the
  hexadecimal encoding of the HMAC-SHA256 digest of \<open>p\<close> under that secret: two
  lower-case hexadecimal digits per digest byte. It depends on nothing but the secret
  and \<open>p\<close>: any environment holding the same secret gives the same subject.
\<close>

theorem deriveSubject_hmac_hex:
  assumes "procEnv ''JWT_HMAC_SECRET'' = Some secret" and "secret \<noteq> []"
  shows "deriveSubject crypto procEnv p = Inr (digestHex (hmacSha256 crypto secret p)) \<and>
         (\<forall>env'. env' ''JWT_HMAC_SECRET'' = Some secret \<longrightarrow>
            deriveSubject crypto env' p = deriveSubject crypto procEnv p) \<and>
         length (digestHex (hmacSha256 crypto secret p)) = 2 * length (hmacSha256 crypto secret p) \<and>
         set (digestHex (hmacSha256 crypto secret p)) \<subseteq> set ''0123456789abcdef''"
  using assms length_digestHex set_digestHex by (simp add: deriveSubject_def)

theorem deriveSubject_hmac_hex_witness:
  "exampleEnv ''JWT_HMAC_SECRET'' = Some ''s3cret'' \<and> ''s3cret'' \<noteq> [] \<and>
   deriveSubject exampleCrypto exampleEnv ''199001010000'' = Inr ''0fa5'' \<and>
   [''JWT_HMAC_SECRET'' \<mapsto> ''s3cret''] ''JWT_HMAC_SECRET'' = Some ''s3cret'' \<and>
   deriveSubject exampleCrypto [''JWT_HMAC_SECRET'' \<mapsto> ''s3cret''] ''199001010000'' = Inr ''0fa5''"
proof -
  have a: "exampleEnv ''JWT_HMAC_SECRET'' = Some ''s3cret''"
    by (simp add: exampleEnv_def)
  have h: "digestHex (hmacSha256 exampleCrypto ''s3cret'' ''199001010000'') = ''0fa5''"
    by (simp add: exampleCrypto_def digestHex_def hexByte_def hexDigit_def)
  show ?thesis
    using a deriveSubject_hmac_hex [of exampleEnv "''s3cret''" exampleCrypto "''199001010000''"]
    by (simp add: h)
qed

text \<open>
  Claim C8, evaluated on the code. A token issued for the personal number
  \<open>199001010000\<close>, with both clock reads in the same second, carries
  \<open>iat = 1700000000\<close> and \<open>exp = 1700000300\<close>: the configured span \<open>5m\<close> is
  300 seconds, not the 3600 of one hour. The same holds of every token whose two
  clock reads agree.
\<close>

theorem issueJwt_validity_five_minutes:
  "secs EXPIRY = Some 300 \<and>
   deriveSubject exampleCrypto (env exampleEffects) ''199001010000'' = Inr ''0fa5'' \<and>
   buildJwt exampleEffects ''0fa5'' = Inr
     \<lparr>protectedHeader = [(''alg'', JString ''RS256''), (''kid'', JString ''agentid-key-1'')],
      payload = [(''auth_method'', JString ''bankid''),
                 (''iat'', JNumber 1700000000),
                 (''iss'', JString ''agentid''),
                 (''sub'', JString ''0fa5''),
                 (''jti'', JString ''uuid-1''),
                 (''exp'', JNumber 1700000300)]\<rparr> \<and>
   validitySeconds (buildJwt exampleEffects ''0fa5'') = Some 300 \<and>
   validitySeconds (buildJwt exampleEffects ''0fa5'') \<noteq> Some (60 * 60) \<and>
   validitySeconds (buildJwt (fx\<lparr>clockExpiration := clockIssuedAt fx\<rparr>) sub) = Some 300"
proof -
  have d: "deriveSubject exampleCrypto (env exampleEffects) ''199001010000'' = Inr ''0fa5''"
    by (simp add: exampleEffects_def exampleEnv_def deriveSubject_def exampleCrypto_def
        digestHex_def hexByte_def hexDigit_def)
  have b: "buildJwt exampleEffects ''0fa5'' = Inr
     \<lparr>protectedHeader = [(''alg'', JString ''RS256''), (''kid'', JString ''agentid-key-1'')],
      payload = [(''auth_method'', JString ''bankid''),
                 (''iat'', JNumber 1700000000),
                 (''iss'', JString ''agentid''),
                 (''sub'', JString ''0fa5''),
                 (''jti'', JString ''uuid-1''),
                 (''exp'', JNumber 1700000300)]\<rparr>"
    by (simp add: buildJwt_value exampleEffects_def epoch_def KEY_ID_def ISSUER_def)
  have v: "validitySeconds (buildJwt f s) = Some (epoch (clockExpiration f) + 300 - epoch (clockIssuedAt f))"
    for f s
    by (simp add: buildJwt_value validitySeconds_def claimNumber_def)
  have e: "validitySeconds (buildJwt exampleEffects ''0fa5'') = Some 300"
    by (simp add: v exampleEffects_def)
  show ?thesis
    using secs_EXPIRY d b e by (simp add: v)
qed

section \<open>The poll and status routes\<close>

lemma poll_GET_terminal:
  assumes "getSession (store w) sid = Some s" and "status s = Some Complete \<or> status s = Some Failed"
  shows "poll_GET crypto fx w sid =
     \<lparr>response = (if status s = Some Complete then jsonResponse [(''status'', JString ''complete'')]
                  else jsonResponse ((''status'', JString ''failed'') # optField ''hintCode'' (hintCode s))),
      world = w, providerCalls = []\<rparr>"
  using assms by (auto simp: poll_GET_def)

lemma polls_terminal:
  assumes "getSession (store w) sid = Some s" and "status s = Some Complete \<or> status s = Some Failed"
  shows "polls crypto fxs w sid = replicate (length fxs)
     \<lparr>response = (if status s = Some Complete then jsonResponse [(''status'', JString ''complete'')]
                  else jsonResponse ((''status'', JString ''failed'') # optField ''hintCode'' (hintCode s))),
      world = w, providerCalls = []\<rparr>"
proof (induction fxs)
  case Nil
  show ?case by simp
next
  case (Cons fx fxs)
  then show ?case
    by (simp add: poll_GET_terminal [OF assms] Let_def)
qed

lemma poll_GET_unreachable:
  assumes "getSession (store w) sid = Some s" and "status s = Some Pending"
    and "getGrandidSession fx (grandidSessionId s) = Inl err"
  shows "poll_GET crypto fx w sid =
     \<lparr>response = jsonResponseWith [(''error'', JString ''GRANDID_UNREACHABLE'')] 502,
      world = w, providerCalls = [grandidSessionId s]\<rparr>"
  using assms by (simp add: poll_GET_def)

lemma poll_GET_complete:
  assumes "getSession (store w) sid = Some s" and "status s = Some Pending"
    and "getGrandidSession fx (grandidSessionId s) = Inr r"
    and "r_userAttributes r = Some ua"
  shows "poll_GET crypto fx w sid =
     (case issueJwt crypto fx (cachedPrivateKey w) (personalNumber ua) of
        (Inr token, cache') \<Rightarrow>
          \<lparr>response = jsonResponse [(''status'', JString ''complete'')],
           world = \<lparr>store = updateSession (store w) sid
                      \<lparr>u_status = Given (Some Complete), u_jwt = Given (Some token),
                       u_userAttributes = Given (Some (UserAttributes.truncate ua)),
                       u_hintCode = LeftOut, u_completedAt = Given (Some (dateNow fx))\<rparr>,
                    cachedPrivateKey = cache'\<rparr>,
           providerCalls = [grandidSessionId s]\<rparr>
      | (Inl err, cache') \<Rightarrow>
          \<lparr>response = jsonResponseWith
             [(''status'', JString ''failed''), (''hintCode'', JString ''JWT_ERROR'')] 500,
           world = \<lparr>store = updateSession (store w) sid
                      \<lparr>u_status = Given (Some Failed), u_jwt = LeftOut, u_userAttributes = LeftOut,
                       u_hintCode = Given (Some ''JWT_ERROR''), u_completedAt = LeftOut\<rparr>,
                    cachedPrivateKey = cache'\<rparr>,
           providerCalls = [grandidSessionId s]\<rparr>)"
  using assms by (simp add: poll_GET_def isComplete_def Let_def)

lemma poll_GET_issued:
  assumes "getSession (store w) sid = Some s" and "status s = Some Pending"
    and "getGrandidSession fx (grandidSessionId s) = Inr r"
    and "r_userAttributes r = Some ua"
    and "issueJwt crypto fx (cachedPrivateKey w) (personalNumber ua) = (Inr token, cache')"
  shows "poll_GET crypto fx w sid =
     \<lparr>response = jsonResponse [(''status'', JString ''complete'')],
      world = \<lparr>store = updateSession (store w) sid
                 \<lparr>u_status = Given (Some Complete), u_jwt = Given (Some token),
                  u_userAttributes = Given (Some (UserAttributes.truncate ua)),
                  u_hintCode = LeftOut, u_completedAt = Given (Some (dateNow fx))\<rparr>,
               cachedPrivateKey = cache'\<rparr>,
      providerCalls = [grandidSessionId s]\<rparr>"
  unfolding poll_GET_complete [OF assms(1-4)] assms(5) by simp

lemma poll_GET_issuance_failed:
  assumes "getSession (store w) sid = Some s" and "status s = Some Pending"
    and "getGrandidSession fx (grandidSessionId s) = Inr r"
    and "r_userAttributes r = Some ua"
    and "issueJwt crypto fx (cachedPrivateKey w) (personalNumber ua) = (Inl err, cache')"
  shows "poll_GET crypto fx w sid =
     \<lparr>response = jsonResponseWith
        [(''status'', JString ''failed''), (''hintCode'', JString ''JWT_ERROR'')] 500,
      world = \<lparr>store = updateSession (store w) sid
                 \<lparr>u_status = Given (Some Failed), u_jwt = LeftOut, u_userAttributes = LeftOut,
                  u_hintCode = Given (Some ''JWT_ERROR''), u_completedAt = LeftOut\<rparr>,
               cachedPrivateKey = cache'\<rparr>,
      providerCalls = [grandidSessionId s]\<rparr>"
  unfolding poll_GET_complete [OF assms(1-4)] assms(5) by simp

lemma poll_GET_failed:
  assumes "getSession (store w) sid = Some s" and "status s = Some Pending"
    and "getGrandidSession fx (grandidSessionId s) = Inr r"
    and "\<not> isComplete r" "isFailed r"
  shows "poll_GET crypto fx w sid =
     \<lparr>response = jsonResponse [(''status'', JString ''failed''),
          (''hintCode'', JString (m_hintCode (message (the (grandidObject r)))))],
      world = w\<lparr>store := updateSession (store w) sid
                 \<lparr>u_status = Given (Some Failed), u_jwt = LeftOut, u_userAttributes = LeftOut,
                  u_hintCode = Given (Some (m_hintCode (message (the (grandidObject r))))),
                  u_completedAt = LeftOut\<rparr>\<rparr>,
      providerCalls = [grandidSessionId s]\<rparr>"
  using assms by (simp add: poll_GET_def Let_def)

lemma poll_GET_unexpected:
  assumes "getSession (store w) sid = Some s" and "status s = Some Pending"
    and "getGrandidSession fx (grandidSessionId s) = Inr r"
    and "\<not> isComplete r" "\<not> isFailed r" "\<not> isPending r" "\<not> isNotLoggedIn r"
  shows "poll_GET crypto fx w sid =
     \<lparr>response = jsonResponse [(''status'', JString ''pending'')],
      world = w, providerCalls = [grandidSessionId s]\<rparr>"
  using assms by (simp add: poll_GET_def)



lemma status_GET_found:
  assumes "sid \<noteq> []" and "getSession st sid = Some s"
  shows "status_GET st (Some sid) =
     (if status s = Some Complete \<and> jwt s \<noteq> None \<and> jwt s \<noteq> Some []
      then jsonResponse [(''status'', JString ''complete''), (''jwt'', JString (the (jwt s)))]
      else if status s = Some Failed
      then jsonResponse [(''status'', JString ''failed''),
             (''hintCode'', JString (case hintCode s of None \<Rightarrow> ''unknown'' | Some h \<Rightarrow> h))]
      else jsonResponse [(''status'', JString ''pending'')])"
  using assms by (simp add: status_GET_def)

lemma status_GET_complete_only:
  assumes "status_GET st param =
     \<lparr>httpStatus = 200, body = [(''status'', JString ''complete''), (''jwt'', JString j)]\<rparr>"
  shows "\<exists>i s. param = Some i \<and> getSession st i = Some s \<and> status s = Some Complete \<and> jwt s = Some j"
proof (cases param)
  case None
  with assms show ?thesis by (simp add: status_GET_def jsonResponseWith_def)
next
  case (Some i)
  show ?thesis
  proof (cases "i = []")
    case True
    with Some assms show ?thesis by (simp add: status_GET_def jsonResponseWith_def)
  next
    case False
    show ?thesis
    proof (cases "getSession st i")
      case None
      with Some False assms show ?thesis by (simp add: status_GET_def jsonResponseWith_def)
    next
      case (Some s)
      have "status s = Some Complete \<and> jwt s \<noteq> None \<and> jwt s \<noteq> Some []"
        using assms \<open>param = Some i\<close>
        by (simp add: status_GET_found [OF False Some] jsonResponse_def split: if_splits)
      moreover from this have "jwt s = Some j"
        using assms \<open>param = Some i\<close>
        by (auto simp: status_GET_found [OF False Some] jsonResponse_def)
      ultimately show ?thesis using Some \<open>param = Some i\<close> by simp
    qed
  qed
qed



lemma getSession_exampleWorld: "getSession (store (exampleWorld s)) ''s1'' = Some s"
  by (simp add: exampleWorld_def getSession_memStoreWith)

lemma completeResponse_attrs:
  "r_userAttributes (completeResponse ua) = Some (UserAttributes.extend ua
       \<lparr>ipAddress = ''192.0.2.1'', notBefore = ''2026-01-01'', notAfter = ''2028-01-01'',
        signature = ''sig'', ocspResponse = ''ocsp'', uhi = ''uhi'',
        bankIdIssueDate = ''2026-01-01''\<rparr>)"
  by (simp add: completeResponse_def)

lemma extend_personalNumber: "personalNumber (UserAttributes.extend ua m) = personalNumber ua"
  by (simp add: UserAttributes.defs)

lemma truncate_extend: "UserAttributes.truncate (UserAttributes.extend ua m) = ua"
  by (simp add: UserAttributes.defs)

text \<open>
  Claim C1. When the stored session is complete or failed, a poll answers from the
  stored record (\<open>complete\<close>, or \<open>failed\<close> with the stored hint code), asks the
  provider nothing and leaves the store and the key cache as they were. So does every
  later poll, whatever the provider would answer: the session stays as stored.
\<close>

theorem poll_terminal_short_circuit:
  assumes "getSession (store w) sid = Some s" and "status s = Some Complete \<or> status s = Some Failed"
  shows "poll_GET crypto fx w sid =
           \<lparr>response = (if status s = Some Complete
                         then jsonResponse [(''status'', JString ''complete'')]
                         else jsonResponse ((''status'', JString ''failed'')
                                # optField ''hintCode'' (hintCode s))),
            world = w, providerCalls = []\<rparr> \<and>
         polls crypto fxs w sid = replicate (length fxs) (poll_GET crypto fx w sid) \<and>
         getSession (store (world (poll_GET crypto fx w sid))) sid = Some s"
  using assms polls_terminal [OF assms] poll_GET_terminal [OF assms] by simp

theorem poll_terminal_short_circuit_witness:
  "getSession (store (exampleWorld exampleFailed)) ''s1'' = Some exampleFailed \<and>
   status exampleFailed = Some Failed \<and>
   poll_GET exampleCrypto (answering (completeResponse exampleAttributes))
      (exampleWorld exampleFailed) ''s1'' =
     \<lparr>response = \<lparr>httpStatus = 200,
         body = [(''status'', JString ''failed''), (''hintCode'', JString ''userCancel'')]\<rparr>,
      world = exampleWorld exampleFailed, providerCalls = []\<rparr> \<and>
   polls exampleCrypto [answering (completeResponse exampleAttributes), exampleEffects,
        answering failedResponse] (exampleWorld exampleFailed) ''s1'' =
     replicate 3
       (poll_GET exampleCrypto (answering (completeResponse exampleAttributes))
          (exampleWorld exampleFailed) ''s1'')"
proof -
  have f: "status exampleFailed = Some Failed" "hintCode exampleFailed = Some ''userCancel''"
    by (simp_all add: exampleFailed_def)
  have l: "length [answering (completeResponse exampleAttributes), exampleEffects,
        answering failedResponse] = 3"
    by simp
  show ?thesis
    using getSession_exampleWorld [of exampleFailed] f
      poll_terminal_short_circuit [of "exampleWorld exampleFailed" "''s1''" exampleFailed
        exampleCrypto "answering (completeResponse exampleAttributes)"
        "[answering (completeResponse exampleAttributes), exampleEffects,
          answering failedResponse]"]
    unfolding l
    by (simp add: jsonResponse_def optField_def del: polls.simps)
qed



text \<open>
  Claim C4. When the provider releases the user attributes for a pending session,
  the poll issues a token. If that succeeds it answers \<open>complete\<close> and the store
  is the old one after a single \<open>updateSession\<close> setting status, token, user
  attributes and completion time together; if it throws, the poll answers 500 with
  \<open>failed\<close> and the hint code \<open>JWT_ERROR\<close>, and the single update stores
  exactly that status and hint code.
\<close>

theorem poll_complete_outcome:
  assumes "getSession (store w) sid = Some s" and "status s = Some Pending"
    and "getGrandidSession fx (grandidSessionId s) = Inr r"
    and "r_userAttributes r = Some ua"
  shows "isComplete r \<and>
    (\<forall>token cache'.
       issueJwt crypto fx (cachedPrivateKey w) (personalNumber ua) = (Inr token, cache') \<longrightarrow>
         response (poll_GET crypto fx w sid) =
           \<lparr>httpStatus = 200, body = [(''status'', JString ''complete'')]\<rparr> \<and>
         store (world (poll_GET crypto fx w sid)) =
           updateSession (store w) sid
             \<lparr>u_status = Given (Some Complete), u_jwt = Given (Some token),
              u_userAttributes = Given (Some (UserAttributes.truncate ua)),
              u_hintCode = LeftOut, u_completedAt = Given (Some (dateNow fx))\<rparr> \<and>
         getSession (store (world (poll_GET crypto fx w sid))) sid =
           Some (s\<lparr>status := Some Complete, jwt := Some token,
                   userAttributes := Some (UserAttributes.truncate ua),
                   completedAt := Some (dateNow fx)\<rparr>)) \<and>
    (\<forall>err cache'.
       issueJwt crypto fx (cachedPrivateKey w) (personalNumber ua) = (Inl err, cache') \<longrightarrow>
         response (poll_GET crypto fx w sid) =
           \<lparr>httpStatus = 500,
            body = [(''status'', JString ''failed''), (''hintCode'', JString ''JWT_ERROR'')]\<rparr> \<and>
         store (world (poll_GET crypto fx w sid)) =
           updateSession (store w) sid
             \<lparr>u_status = Given (Some Failed), u_jwt = LeftOut, u_userAttributes = LeftOut,
              u_hintCode = Given (Some ''JWT_ERROR''), u_completedAt = LeftOut\<rparr> \<and>
         getSession (store (world (poll_GET crypto fx w sid))) sid =
           Some (s\<lparr>status := Some Failed, hintCode := Some ''JWT_ERROR''\<rparr>))"
proof (intro conjI allI impI)
  show "isComplete r"
    using assms(4) by (simp add: isComplete_def)
next
  fix token cache'
  assume i: "issueJwt crypto fx (cachedPrivateKey w) (personalNumber ua) = (Inr token, cache')"
  note p = poll_GET_issued [OF assms i]
  show "response (poll_GET crypto fx w sid) =
      \<lparr>httpStatus = 200, body = [(''status'', JString ''complete'')]\<rparr>"
    by (simp add: p jsonResponse_def)
  show "store (world (poll_GET crypto fx w sid)) =
      updateSession (store w) sid
        \<lparr>u_status = Given (Some Complete), u_jwt = Given (Some token),
         u_userAttributes = Given (Some (UserAttributes.truncate ua)),
         u_hintCode = LeftOut, u_completedAt = Given (Some (dateNow fx))\<rparr>"
    by (simp add: p)
  show "getSession (store (world (poll_GET crypto fx w sid))) sid =
      Some (s\<lparr>status := Some Complete, jwt := Some token,
              userAttributes := Some (UserAttributes.truncate ua),
              completedAt := Some (dateNow fx)\<rparr>)"
    by (simp add: p getSession_updateSession_same [OF assms(1)] merge_def spread_def)
next
  fix err cache'
  assume i: "issueJwt crypto fx (cachedPrivateKey w) (personalNumber ua) = (Inl err, cache')"
  note p = poll_GET_issuance_failed [OF assms i]
  show "response (poll_GET crypto fx w sid) =
      \<lparr>httpStatus = 500,
       body = [(''status'', JString ''failed''), (''hintCode'', JString ''JWT_ERROR'')]\<rparr>"
    by (simp add: p jsonResponseWith_def)
  show "store (world (poll_GET crypto fx w sid)) =
      updateSession (store w) sid
        \<lparr>u_status = Given (Some Failed), u_jwt = LeftOut, u_userAttributes = LeftOut,
         u_hintCode = Given (Some ''JWT_ERROR''), u_completedAt = LeftOut\<rparr>"
    by (simp add: p)
  show "getSession (store (world (poll_GET crypto fx w sid))) sid =
      Some (s\<lparr>status := Some Failed, hintCode := Some ''JWT_ERROR''\<rparr>)"
    by (simp add: p getSession_updateSession_same [OF assms(1)] merge_def spread_def)
qed

theorem poll_complete_outcome_witness:
  "getSession (store (exampleWorld examplePending)) ''s1'' = Some examplePending \<and>
   status examplePending = Some Pending \<and>
   getGrandidSession (answering (completeResponse exampleAttributes))
      (grandidSessionId examplePending) = Inr (completeResponse exampleAttributes) \<and>
   issueJwt exampleCrypto (answering (completeResponse exampleAttributes))
      (cachedPrivateKey (exampleWorld examplePending)) ''199001010000''
     = (Inr ''algkid.auth_methodiatisssubjtiexp.PEM'', Some ''PEM'') \<and>
   response (poll_GET exampleCrypto (answering (completeResponse exampleAttributes))
      (exampleWorld examplePending) ''s1'')
     = \<lparr>httpStatus = 200, body = [(''status'', JString ''complete'')]\<rparr> \<and>
   getSession (store (world (poll_GET exampleCrypto
      (answering (completeResponse exampleAttributes)) (exampleWorld examplePending) ''s1'')))
      ''s1''
     = Some (examplePending\<lparr>status := Some Complete,
          jwt := Some ''algkid.auth_methodiatisssubjtiexp.PEM'',
          userAttributes := Some exampleAttributes, completedAt := Some 1700000000456\<rparr>) \<and>
   issueJwt exampleCrypto (withoutKeys (answering (completeResponse exampleAttributes)))
      (cachedPrivateKey (exampleWorld examplePending)) ''199001010000''
     = (Inl (EnvVarNotSet ''JWT_PRIVATE_KEY''), None) \<and>
   response (poll_GET exampleCrypto (withoutKeys (answering (completeResponse exampleAttributes)))
      (exampleWorld examplePending) ''s1'')
     = \<lparr>httpStatus = 500,
        body = [(''status'', JString ''failed''), (''hintCode'', JString ''JWT_ERROR'')]\<rparr> \<and>
   getSession (store (world (poll_GET exampleCrypto
      (withoutKeys (answering (completeResponse exampleAttributes)))
      (exampleWorld examplePending) ''s1''))) ''s1''
     = Some (examplePending\<lparr>status := Some Failed, hintCode := Some ''JWT_ERROR''\<rparr>)"
proof -
  let ?r = "completeResponse exampleAttributes"
  let ?ua = "UserAttributes.extend exampleAttributes
       \<lparr>ipAddress = ''192.0.2.1'', notBefore = ''2026-01-01'', notAfter = ''2028-01-01'',
        signature = ''sig'', ocspResponse = ''ocsp'', uhi = ''uhi'',
        bankIdIssueDate = ''2026-01-01''\<rparr>"
  have g: "getSession (store (exampleWorld examplePending)) ''s1'' = Some examplePending"
    by (rule getSession_exampleWorld)
  have p: "status examplePending = Some Pending"
    by (simp add: examplePending_def)
  have a: "getGrandidSession (answering ?r) (grandidSessionId examplePending) = Inr ?r"
    by (simp add: answering_def)
  have a': "getGrandidSession (withoutKeys (answering ?r)) (grandidSessionId examplePending) = Inr ?r"
    by (simp add: answering_def withoutKeys_def)
  have u: "r_userAttributes ?r = Some ?ua"
    by (rule completeResponse_attrs)
  have n: "personalNumber ?ua = ''199001010000''"
    by (simp add: extend_personalNumber exampleAttributes_def)
  have c: "cachedPrivateKey (exampleWorld examplePending) = None"
    by (simp add: exampleWorld_def)
  have d: "dateNow (answering ?r) = 1700000000456"
    by (simp add: answering_def exampleEffects_def)
  have i: "issueJwt exampleCrypto (answering ?r) (cachedPrivateKey (exampleWorld examplePending))
      (personalNumber ?ua) = (Inr ''algkid.auth_methodiatisssubjtiexp.PEM'', Some ''PEM'')"
    unfolding c n by (rule issueJwt_example)
  have i': "issueJwt exampleCrypto (withoutKeys (answering ?r))
      (cachedPrivateKey (exampleWorld examplePending)) (personalNumber ?ua)
      = (Inl (EnvVarNotSet ''JWT_PRIVATE_KEY''), None)"
    unfolding c n by (rule issueJwt_withoutKeys)
  note ok = poll_complete_outcome [OF g p a u, of exampleCrypto, THEN conjunct2, THEN conjunct1,
      rule_format, OF i]
  note ko = poll_complete_outcome [OF g p a' u, of exampleCrypto, THEN conjunct2, THEN conjunct2,
      rule_format, OF i']
  show ?thesis
    using g p a i i' ok [THEN conjunct1] ok [THEN conjunct2, THEN conjunct2]
      ko [THEN conjunct1] ko [THEN conjunct2, THEN conjunct2]
    by (simp add: n c d truncate_extend)
qed

text \<open>
  Claim C7. When the request to the provider throws, a poll of a pending session
  answers 502 with \<open>GRANDID_UNREACHABLE\<close> and changes nothing: the session is
  still the pending one. A failure reported by the provider is answered differently,
  with status 200.
\<close>

theorem poll_provider_unreachable:
  assumes "getSession (store w) sid = Some s" and "status s = Some Pending"
    and "getGrandidSession fx (grandidSessionId s) = Inl err"
  shows "poll_GET crypto fx w sid =
           \<lparr>response = jsonResponseWith [(''error'', JString ''GRANDID_UNREACHABLE'')] 502,
            world = w, providerCalls = [grandidSessionId s]\<rparr> \<and>
         httpStatus (response (poll_GET crypto fx w sid)) = 502 \<and>
         getSession (store (world (poll_GET crypto fx w sid))) sid = Some s \<and>
         (\<forall>fx' r. getGrandidSession fx' (grandidSessionId s) = Inr r \<and>
              \<not> isComplete r \<and> isFailed r \<longrightarrow>
            httpStatus (response (poll_GET crypto fx' w sid)) = 200 \<and>
            response (poll_GET crypto fx' w sid) \<noteq> response (poll_GET crypto fx w sid))"
  using assms poll_GET_unreachable [OF assms] poll_GET_failed [OF assms(1,2)]
  by (simp add: jsonResponseWith_def jsonResponse_def)

theorem poll_provider_unreachable_witness:
  "getSession (store (exampleWorld examplePending)) ''s1'' = Some examplePending \<and>
   status examplePending = Some Pending \<and>
   getGrandidSession exampleEffects (grandidSessionId examplePending) = Inl FetchFailed \<and>
   poll_GET exampleCrypto exampleEffects (exampleWorld examplePending) ''s1'' =
     \<lparr>response = \<lparr>httpStatus = 502, body = [(''error'', JString ''GRANDID_UNREACHABLE'')]\<rparr>,
      world = exampleWorld examplePending, providerCalls = [''gid-1'']\<rparr> \<and>
   getGrandidSession (answering failedResponse) (grandidSessionId examplePending)
     = Inr failedResponse \<and>
   \<not> isComplete failedResponse \<and> isFailed failedResponse \<and>
   httpStatus (response (poll_GET exampleCrypto (answering failedResponse)
      (exampleWorld examplePending) ''s1'')) = 200"
proof -
  have p: "status examplePending = Some Pending" "grandidSessionId examplePending = ''gid-1''"
    by (simp_all add: examplePending_def)
  have g: "getGrandidSession exampleEffects (grandidSessionId examplePending) = Inl FetchFailed"
    by (simp add: exampleEffects_def)
  have h: "getGrandidSession (answering failedResponse) (grandidSessionId examplePending)
     = Inr failedResponse"
    by (simp add: answering_def)
  have c: "\<not> isComplete failedResponse" "isFailed failedResponse"
    by (simp_all add: isComplete_def isFailed_def failedResponse_def)
  show ?thesis
    using getSession_exampleWorld [of examplePending] p g h c
      poll_provider_unreachable [of "exampleWorld examplePending" "''s1''" examplePending
        exampleEffects FetchFailed exampleCrypto]
    by (simp add: jsonResponseWith_def)
qed

text \<open>
  Claim C9. A provider answer that none of the four type guards recognises leaves a
  pending session untouched and is answered with \<open>pending\<close> alone, status 200.
\<close>

theorem poll_unexpected_shape_pending:
  assumes "getSession (store w) sid = Some s" and "status s = Some Pending"
    and "getGrandidSession fx (grandidSessionId s) = Inr r"
    and "\<not> isComplete r" and "\<not> isFailed r" and "\<not> isPending r" and "\<not> isNotLoggedIn r"
  shows "poll_GET crypto fx w sid =
           \<lparr>response = \<lparr>httpStatus = 200, body = [(''status'', JString ''pending'')]\<rparr>,
            world = w, providerCalls = [grandidSessionId s]\<rparr>"
  using poll_GET_unexpected [OF assms] by (simp add: jsonResponse_def)

theorem poll_unexpected_shape_pending_witness:
  "getSession (store (exampleWorld examplePending)) ''s1'' = Some examplePending \<and>
   status examplePending = Some Pending \<and>
   getGrandidSession (answering errorResponse) (grandidSessionId examplePending)
     = Inr errorResponse \<and>
   \<not> isComplete errorResponse \<and> \<not> isFailed errorResponse \<and>
   \<not> isPending errorResponse \<and> \<not> isNotLoggedIn errorResponse \<and>
   poll_GET exampleCrypto (answering errorResponse) (exampleWorld examplePending) ''s1'' =
     \<lparr>response = \<lparr>httpStatus = 200, body = [(''status'', JString ''pending'')]\<rparr>,
      world = exampleWorld examplePending, providerCalls = [''gid-1'']\<rparr>"
proof -
  have p: "status examplePending = Some Pending" "grandidSessionId examplePending = ''gid-1''"
    by (simp_all add: examplePending_def)
  have h: "getGrandidSession (answering errorResponse) (grandidSessionId examplePending)
     = Inr errorResponse"
    by (simp add: answering_def)
  have c: "\<not> isComplete errorResponse" "\<not> isFailed errorResponse"
    "\<not> isPending errorResponse" "\<not> isNotLoggedIn errorResponse"
    by (simp_all add: isComplete_def isFailed_def isPending_def isNotLoggedIn_def
        errorResponse_def)
  show ?thesis
    using getSession_exampleWorld [of examplePending] p h c
      poll_unexpected_shape_pending [of "exampleWorld examplePending" "''s1''" examplePending
        "answering errorResponse" errorResponse exampleCrypto]
    by simp
qed

text \<open>
  Claim C10. The status route answers \<open>pending\<close> for a session that is complete
  but holds no token; an answer \<open>complete\<close> with a token is given only for a
  session that is complete and holds that token, and is given whenever such a
  session holds a non-empty token.
\<close>

theorem status_complete_needs_jwt:
  "(\<forall>s. sid \<noteq> [] \<and> getSession st sid = Some s \<and> status s = Some Complete \<and> jwt s = None \<longrightarrow>
      status_GET st (Some sid) = \<lparr>httpStatus = 200, body = [(''status'', JString ''pending'')]\<rparr>) \<and>
   (\<forall>j. status_GET st param =
           \<lparr>httpStatus = 200, body = [(''status'', JString ''complete''), (''jwt'', JString j)]\<rparr> \<longrightarrow>
        (\<exists>i s. param = Some i \<and> getSession st i = Some s \<and> status s = Some Complete \<and>
               jwt s = Some j)) \<and>
   (\<forall>s j. sid \<noteq> [] \<and> getSession st sid = Some s \<and> status s = Some Complete \<and> jwt s = Some j \<and>
          j \<noteq> [] \<longrightarrow>
      status_GET st (Some sid) =
        \<lparr>httpStatus = 200, body = [(''status'', JString ''complete''), (''jwt'', JString j)]\<rparr>)"
proof (intro conjI allI impI)
  fix s
  assume "sid \<noteq> [] \<and> getSession st sid = Some s \<and> status s = Some Complete \<and> jwt s = None"
  then show "status_GET st (Some sid)
      = \<lparr>httpStatus = 200, body = [(''status'', JString ''pending'')]\<rparr>"
    by (simp add: status_GET_found jsonResponse_def)
next
  fix j
  assume "status_GET st param =
     \<lparr>httpStatus = 200, body = [(''status'', JString ''complete''), (''jwt'', JString j)]\<rparr>"
  then show "\<exists>i s. param = Some i \<and> getSession st i = Some s \<and> status s = Some Complete \<and>
       jwt s = Some j"
    by (rule status_GET_complete_only)
next
  fix s j
  assume "sid \<noteq> [] \<and> getSession st sid = Some s \<and> status s = Some Complete \<and> jwt s = Some j \<and>
      j \<noteq> []"
  then show "status_GET st (Some sid) =
      \<lparr>httpStatus = 200, body = [(''status'', JString ''complete''), (''jwt'', JString j)]\<rparr>"
    by (simp add: status_GET_found jsonResponse_def)
qed

theorem status_complete_needs_jwt_witness:
  "getSession (memStoreWith (exampleComplete\<lparr>jwt := None\<rparr>)) ''s1''
     = Some (exampleComplete\<lparr>jwt := None\<rparr>) \<and>
   status (exampleComplete\<lparr>jwt := None\<rparr>) = Some Complete \<and>
   jwt (exampleComplete\<lparr>jwt := None\<rparr>) = None \<and>
   status_GET (memStoreWith (exampleComplete\<lparr>jwt := None\<rparr>)) (Some ''s1'')
     = \<lparr>httpStatus = 200, body = [(''status'', JString ''pending'')]\<rparr> \<and>
   getSession (memStoreWith exampleComplete) ''s1'' = Some exampleComplete \<and>
   status exampleComplete = Some Complete \<and> jwt exampleComplete = Some ''h.p.s'' \<and>
   status_GET (memStoreWith exampleComplete) (Some ''s1'')
     = \<lparr>httpStatus = 200,
        body = [(''status'', JString ''complete''), (''jwt'', JString ''h.p.s'')]\<rparr>"
proof -
  have c: "status exampleComplete = Some Complete" "jwt exampleComplete = Some ''h.p.s''"
    by (simp_all add: exampleComplete_def)
  have d: "status (exampleComplete\<lparr>jwt := None\<rparr>) = Some Complete"
    "jwt (exampleComplete\<lparr>jwt := None\<rparr>) = None"
    by (simp_all add: exampleComplete_def)
  have n: "''s1'' \<noteq> []" "''h.p.s'' \<noteq> []"
    by simp_all
  have "status_GET (memStoreWith (exampleComplete\<lparr>jwt := None\<rparr>)) (Some ''s1'')
     = \<lparr>httpStatus = 200, body = [(''status'', JString ''pending'')]\<rparr>"
    using status_complete_needs_jwt [of "''s1''" "memStoreWith (exampleComplete\<lparr>jwt := None\<rparr>)"
        "Some ''s1''"]
      n d getSession_memStoreWith [of "exampleComplete\<lparr>jwt := None\<rparr>"]
    by blast
  moreover have "status_GET (memStoreWith exampleComplete) (Some ''s1'')
     = \<lparr>httpStatus = 200,
        body = [(''status'', JString ''complete''), (''jwt'', JString ''h.p.s'')]\<rparr>"
    using status_complete_needs_jwt [of "''s1''" "memStoreWith exampleComplete" "Some ''s1''"]
      n c getSession_memStoreWith [of exampleComplete]
    by blast
  ultimately show ?thesis
    using c d getSession_memStoreWith [of exampleComplete]
      getSession_memStoreWith [of "exampleComplete\<lparr>jwt := None\<rparr>"]
    by blast
qed

end
